theory Spec2Isabelle
  imports Main
begin

section \<open>Data model of \<open>auth_manager.go\<close>\<close>

text \<open>
  Go returns errors as values. The package declares four sentinel errors; the remaining
  constructors are the error values its collaborators hand back: \<open>redis.Nil\<close> (the reply of
  a read on a missing key), the error of the store client for a value it cannot marshal,
  \<open>*jwt.ValidationError\<close> (with its flag set and its \<open>Inner\<close> error) and any other error
  (transport failure, cancelled context, exhausted random source), identified by its
  message.
\<close>

datatype jwt_flag =
    ValidationErrorMalformed
  | ValidationErrorUnverifiable
  | ValidationErrorSignatureInvalid
  | ValidationErrorClaimsInvalid

datatype error =
    ErrInvalidToken
  | ErrInvalidTokenType
  | ErrUnexpectedSigningMethod
  | ErrNotFound
  | RedisNil
  | RedisMarshalError
  | ValidationError "jwt_flag list" "error option"
  | ExternalError string

text \<open>\<open>const TokenByteLength = 32\<close>\<close>

definition TokenByteLength :: int where
  "TokenByteLength = 32"

text \<open>
  \<open>type TokenType int\<close> with the constants numbered by \<open>iota\<close>. The type is an integer
  type: a decoded token may carry any integer there.
\<close>

type_synonym TokenType = int


definition VerifyEmail :: TokenType where
  "VerifyEmail = 1"

definition AccessToken :: TokenType where
  "AccessToken = 2"

definition RefreshToken :: TokenType where
  "RefreshToken = 3"

text \<open>
  \<open>time.Time\<close> and \<open>time.Duration\<close> as integers in one unit of time (the unit of the clock
  below).
\<close>

type_synonym Time = int
type_synonym Duration = int

text \<open>\<open>jwt.StandardClaims\<close>, embedded in \<open>TokenClaims\<close>.\<close>

record jwt_StandardClaims =
  Audience :: string
  ExpiresAt :: int
  Id_claim :: string
  IssuedAt :: int
  Issuer :: string
  NotBefore :: int
  Subject :: string

definition zero_StandardClaims :: jwt_StandardClaims where
  "zero_StandardClaims =
     \<lparr>Audience = [], ExpiresAt = 0, Id_claim = [], IssuedAt = 0, Issuer = [],
      NotBefore = 0, Subject = []\<rparr>"

record TokenClaims =
  UUID :: string
  CreatedAt :: Time
  TokenType :: TokenType
  StandardClaims :: jwt_StandardClaims

text \<open>The zero value \<open>TokenClaims{}\<close>.\<close>

definition zero_TokenClaims :: TokenClaims where
  "zero_TokenClaims =
     \<lparr>UUID = [], CreatedAt = 0, TokenType = 0, StandardClaims = zero_StandardClaims\<rparr>"

text \<open>
  \<open>NewTokenClaims\<close>; the reading of \<open>time.Now()\<close> is the first argument. The embedded
  standard claims are not mentioned in the composite literal and keep their zero value.
\<close>

definition NewTokenClaims :: "Time \<Rightarrow> string \<Rightarrow> TokenType \<Rightarrow> TokenClaims" where
  "NewTokenClaims now uuid tokenType =
     \<lparr>UUID = uuid, CreatedAt = now, TokenType = tokenType,
      StandardClaims = zero_StandardClaims\<rparr>"

record AuthManagerOpts =
  PrivateKey :: string

text \<open>
  \<open>authManager\<close>: the options; the \<open>redisClient\<close> field is the connection to the store,
  whose contents are the state \<open>Redis\<close> below.
\<close>

record authManager =
  opts :: AuthManagerOpts

section \<open>The key-value store\<close>

text \<open>
  The store as the three client calls of the source see it: each key holds a value, a
  string of bytes, and, when it was written with a positive expiration, the time at which
  it lapses. A key whose deadline has passed is not there any more for a read. An
  expiration that is not positive sets no deadline; the option \<open>KeepTTL\<close> of the client is
  not modelled.

  Every call is a network call and can fail without reaching the store; the outcome of the
  transport is the first argument of each operation (\<open>None\<close>: the command was carried out
  and answered).

  \<open>Set\<close> takes its value as an \<open>interface{}\<close> and the client decides by the dynamic type how
  to write it: a string goes out as it is, and a type that is neither a basic type nor an
  \<open>encoding.BinaryMarshaler\<close> is refused with an error before anything is sent. The only
  value this package hands to \<open>Set\<close> is a \<open>*TokenClaims\<close>, nil or not; \<open>TokenClaims\<close> has no
  \<open>MarshalBinary\<close> method (its \<open>time.Time\<close> is a named field and \<open>jwt.StandardClaims\<close> has
  none), so it falls under the refusal.
\<close>

datatype redis_arg =
    ArgString string
  | ArgTokenClaims "TokenClaims option"

record Redis =
  entries :: "string \<rightharpoonup> (string \<times> Time option)"
  clock :: Time

definition live :: "Redis \<Rightarrow> string \<Rightarrow> string option" where
  "live w key =
     (case entries w key of
        None \<Rightarrow> None
      | Some (v, None) \<Rightarrow> Some v
      | Some (v, Some deadline) \<Rightarrow> (if clock w < deadline then Some v else None))"

definition redis_Set ::
  "error option \<Rightarrow> Redis \<Rightarrow> string \<Rightarrow> redis_arg \<Rightarrow> Duration \<Rightarrow> Redis \<times> error option" where
  "redis_Set fault w key v expiration =
     (case fault of
        Some e \<Rightarrow> (w, Some e)
      | None \<Rightarrow>
          (case v of
             ArgTokenClaims c \<Rightarrow> (w, Some RedisMarshalError)
           | ArgString bytes \<Rightarrow>
               (w\<lparr>entries := (entries w)(key \<mapsto>
                     (bytes, if 0 < expiration then Some (clock w + expiration) else None))\<rparr>,
                None)))"

definition redis_Get :: "error option \<Rightarrow> Redis \<Rightarrow> string \<Rightarrow> error + string" where
  "redis_Get fault w key =
     (case fault of
        Some e \<Rightarrow> Inl e
      | None \<Rightarrow> (case live w key of None \<Rightarrow> Inl RedisNil | Some v \<Rightarrow> Inr v))"

definition redis_Del :: "error option \<Rightarrow> Redis \<Rightarrow> string \<Rightarrow> Redis \<times> error option" where
  "redis_Del fault w key =
     (case fault of
        Some e \<Rightarrow> (w, Some e)
      | None \<Rightarrow> (w\<lparr>entries := (entries w)(key := None)\<rparr>, None))"

text \<open>Time passing between two calls.\<close>

definition elapse :: "Duration \<Rightarrow> Redis \<Rightarrow> Redis" where
  "elapse d w = w\<lparr>clock := clock w + d\<rparr>"

section \<open>\<open>GenerateToken\<close> and \<open>DestroyToken\<close>\<close>

text \<open>
  \<open>generateRandomString\<close> is a function of this package that is not in the file at hand,
  so it is a parameter of \<open>GenerateToken\<close>: for one call, a function from the requested byte
  length to the pair \<open>(string, error)\<close> that Go returns. It receives the length only.

  The \<open>tokenType\<close> argument is not used by the body, as in the source. The claims go to
  \<open>Set\<close> as the pointer they are.
\<close>

definition GenerateToken ::
  "(int \<Rightarrow> string \<times> error option) \<Rightarrow> error option \<Rightarrow> Redis \<Rightarrow> TokenType \<Rightarrow>
     TokenClaims option \<Rightarrow> Duration \<Rightarrow> Redis \<times> string \<times> error option" where
  "GenerateToken generateRandomString fault w tokenType tokenClaims expr =
     (case generateRandomString TokenByteLength of
        (token, Some err) \<Rightarrow> (w, [], Some err)
      | (token, None) \<Rightarrow>
          (case redis_Set fault w token (ArgTokenClaims tokenClaims) expr of
             (w', Some err) \<Rightarrow> (w', [], Some err)
           | (w', None) \<Rightarrow> (w', token, None)))"

definition DestroyToken :: "error option \<Rightarrow> Redis \<Rightarrow> string \<Rightarrow> Redis \<times> error option" where
  "DestroyToken fault w key =
     (case redis_Del fault w key of
        (w', Some err) \<Rightarrow> (w', Some err)
      | (w', None) \<Rightarrow> (w', None))"

section \<open>The token parser used by \<open>DecodeToken\<close>\<close>

text \<open>
  The signing methods of the JWT package, one constructor for each Go type that implements
  \<open>jwt.SigningMethod\<close>; the argument is the algorithm name. The type assertion
  \<open>token.Method.(*jwt.SigningMethodHMAC)\<close> of the source asks for the first constructor.
\<close>

datatype jwt_SigningMethod =
    SigningMethodHMAC string
  | SigningMethodRSA string
  | SigningMethodRSAPSS string
  | SigningMethodECDSA string
  | SigningMethodEd25519
  | SigningMethodNone

fun is_SigningMethodHMAC :: "jwt_SigningMethod \<Rightarrow> bool" where
  "is_SigningMethodHMAC (SigningMethodHMAC name) = True"
| "is_SigningMethodHMAC m = False"

text \<open>\<open>var TokenEncodingAlgorithm = jwt.SigningMethodHS512\<close>\<close>

definition TokenEncodingAlgorithm :: jwt_SigningMethod where
  "TokenEncodingAlgorithm = SigningMethodHMAC ''HS512''"

text \<open>
  \<open>jwt.GetSigningMethod\<close>: the methods registered under the name in the header, by
  family.
\<close>

definition HMAC_algs :: "string list" where
  "HMAC_algs = [''HS256'', ''HS384'', ''HS512'']"

definition RSA_algs :: "string list" where
  "RSA_algs = [''RS256'', ''RS384'', ''RS512'']"

definition RSAPSS_algs :: "string list" where
  "RSAPSS_algs = [''PS256'', ''PS384'', ''PS512'']"

definition ECDSA_algs :: "string list" where
  "ECDSA_algs = [''ES256'', ''ES384'', ''ES512'']"

definition GetSigningMethod :: "string \<Rightarrow> jwt_SigningMethod option" where
  "GetSigningMethod alg =
     (if alg \<in> set HMAC_algs then Some (SigningMethodHMAC alg)
      else if alg \<in> set RSA_algs then Some (SigningMethodRSA alg)
      else if alg \<in> set RSAPSS_algs then Some (SigningMethodRSAPSS alg)
      else if alg \<in> set ECDSA_algs then Some (SigningMethodECDSA alg)
      else if alg = ''EdDSA'' then Some SigningMethodEd25519
      else if alg = ''none'' then Some SigningMethodNone
      else None)"

record jwt_Token =
  Raw :: string
  Method :: jwt_SigningMethod
  Claims :: TokenClaims
  Signature :: string
  Valid :: bool

text \<open>
  What the parser computes with encodings and cryptography is not part of this package and
  is a parameter of the model:
  \<^item> \<open>DecodeHeader\<close>: the header segment, base64url- and JSON-decoded; \<open>None\<close> when that
    fails, otherwise the \<open>alg\<close> entry when it is a string;
  \<^item> \<open>DecodeClaims\<close>: the claims segment decoded into a \<open>TokenClaims\<close>;
  \<^item> \<open>ClaimsValid\<close>: the \<open>Valid()\<close> method of the claims at the given time;
  \<^item> \<open>Verify\<close>: \<open>Method.Verify(signingString, signature, key)\<close>.
\<close>

record jwt_lib =
  DecodeHeader :: "string \<Rightarrow> string option option"
  DecodeClaims :: "string \<Rightarrow> TokenClaims option"
  ClaimsValid :: "Time \<Rightarrow> TokenClaims \<Rightarrow> error option"
  Verify :: "jwt_SigningMethod \<Rightarrow> string \<Rightarrow> string \<Rightarrow> string \<Rightarrow> error option"

text \<open>\<open>strings.Split(s, sep)\<close> for a separator of one character.\<close>

fun strings_Split :: "string \<Rightarrow> char \<Rightarrow> string list" where
  "strings_Split [] sep = [[]]"
| "strings_Split (c # cs) sep =
     (if c = sep then [] # strings_Split cs sep
      else (case strings_Split cs sep of
              [] \<Rightarrow> [[c]]
            | p # ps \<Rightarrow> (c # p) # ps))"

text \<open>
  \<open>Parser.ParseUnverified\<close>: three segments, header, claims, then the signing method named
  by the header. The \<open>Inner\<close> decoding errors are not kept.
\<close>

definition ParseUnverified :: "jwt_lib \<Rightarrow> string \<Rightarrow> error + (jwt_Token \<times> string list)" where
  "ParseUnverified lib tokenString =
     (let parts = strings_Split tokenString (CHR ''.'') in
      if length parts \<noteq> 3 then Inl (ValidationError [ValidationErrorMalformed] None)
      else
        (case DecodeHeader lib (parts ! 0) of
           None \<Rightarrow> Inl (ValidationError [ValidationErrorMalformed] None)
         | Some alg \<Rightarrow>
             (case DecodeClaims lib (parts ! 1) of
                None \<Rightarrow> Inl (ValidationError [ValidationErrorMalformed] None)
              | Some claims \<Rightarrow>
                  (case alg of
                     None \<Rightarrow> Inl (ValidationError [ValidationErrorUnverifiable] None)
                   | Some method \<Rightarrow>
                       (case GetSigningMethod method of
                          None \<Rightarrow> Inl (ValidationError [ValidationErrorUnverifiable] None)
                        | Some m \<Rightarrow>
                            Inr (\<lparr>Raw = tokenString, Method = m, Claims = claims,
                                  Signature = [], Valid = False\<rparr>, parts))))))"

text \<open>
  \<open>Parser.ParseWithClaims\<close>: the key function is asked for the key first; an error of the
  key function that is not a validation error itself is wrapped into one. Then the claims
  are validated and the signature is verified, and the token is valid when neither
  complained. A nil error comes with \<open>Valid = true\<close> only.
\<close>

definition ParseWithClaims ::
  "jwt_lib \<Rightarrow> Time \<Rightarrow> string \<Rightarrow> (jwt_Token \<Rightarrow> error + string) \<Rightarrow> error + jwt_Token" where
  "ParseWithClaims lib now tokenString keyFunc =
     (case ParseUnverified lib tokenString of
        Inl err \<Rightarrow> Inl err
      | Inr (token, parts) \<Rightarrow>
          (case keyFunc token of
             Inl err \<Rightarrow>
               (case err of
                  ValidationError flags inner \<Rightarrow> Inl err
                | _ \<Rightarrow> Inl (ValidationError [ValidationErrorUnverifiable] (Some err)))
           | Inr key \<Rightarrow>
               (let vErr =
                      (case ClaimsValid lib now (Claims token) of
                         None \<Rightarrow> ([], None)
                       | Some (ValidationError flags inner) \<Rightarrow> (flags, inner)
                       | Some e \<Rightarrow> ([ValidationErrorClaimsInvalid], Some e));
                    token' = token\<lparr>Signature := parts ! 2\<rparr>;
                    vErr' =
                      (case Verify lib (Method token')
                              (parts ! 0 @ ''.'' @ parts ! 1) (Signature token') key of
                         None \<Rightarrow> vErr
                       | Some e \<Rightarrow>
                           (List.insert ValidationErrorSignatureInvalid (fst vErr), Some e))
                in if fst vErr' = [] then Inr (token'\<lparr>Valid := True\<rparr>)
                   else Inl (ValidationError (fst vErr') (snd vErr')))))"

section \<open>\<open>DecodeToken\<close>\<close>

text \<open>The function literal handed to the parser: the key-resolution step.\<close>

definition keyFunc :: "authManager \<Rightarrow> jwt_Token \<Rightarrow> error + string" where
  "keyFunc t token =
     (if \<not> is_SigningMethodHMAC (Method token) then Inl ErrUnexpectedSigningMethod
      else Inr (PrivateKey (opts t)))"

text \<open>
  \<open>DecodeToken\<close> returns the pair \<open>(*TokenClaims, error)\<close>; \<open>None\<close> is \<open>nil\<close> in either
  place. The value read from the store is discarded (\<open>_\<close>); what is parsed is the argument
  \<open>token\<close>. The parser's clock is the clock of the store.
\<close>

definition DecodeToken ::
  "jwt_lib \<Rightarrow> authManager \<Rightarrow> error option \<Rightarrow> Redis \<Rightarrow> string \<Rightarrow> TokenType \<Rightarrow>
     TokenClaims option \<times> error option" where
  "DecodeToken lib t fault w token tokenType =
     (case redis_Get fault w token of
        Inl err \<Rightarrow> (None, Some err)
      | Inr stored \<Rightarrow>
          (case ParseWithClaims lib (clock w) token (keyFunc t) of
             Inl err \<Rightarrow> (None, Some ErrInvalidToken)
           | Inr jwtToken \<Rightarrow>
               (if Valid jwtToken then
                  (if TokenType (Claims jwtToken) \<noteq> tokenType
                   then (None, Some ErrInvalidTokenType)
                   else (Some (Claims jwtToken), None))
                else (Some zero_TokenClaims, Some ErrInvalidToken))))"

section \<open>A concrete setting\<close>

text \<open>
  For evaluating the functions on concrete tokens: the header segments
  \<open>{"alg":"HS512","typ":"JWT"}\<close>, \<open>{"alg":"HS256","typ":"JWT"}\<close>,
  \<open>{"alg":"RS256","typ":"JWT"}\<close> and \<open>{"alg":"none","typ":"JWT"}\<close> in base64url, the claims
  segment \<open>{"uuid":"u1","tokenType":1}\<close>, and the HMAC-SHA512 and HMAC-SHA256 of
  header and claims under the key \<open>secret\<close>, in base64url.
\<close>

definition hdr_HS512 :: string where
  "hdr_HS512 = ''eyJhbGciOiJIUzUxMiIsInR5cCI6IkpXVCJ9''"

definition hdr_HS256 :: string where
  "hdr_HS256 = ''eyJhbGciOiJIUzI1NiIsInR5cCI6IkpXVCJ9''"

definition hdr_RS256 :: string where
  "hdr_RS256 = ''eyJhbGciOiJSUzI1NiIsInR5cCI6IkpXVCJ9''"

definition hdr_none :: string where
  "hdr_none = ''eyJhbGciOiJub25lIiwidHlwIjoiSldUIn0''"

definition seg_claims_u1 :: string where
  "seg_claims_u1 = ''eyJ1dWlkIjoidTEiLCJ0b2tlblR5cGUiOjF9''"

definition sig_HS512 :: string where
  "sig_HS512 =
     ''GLjDcRxSr_PVaU6gN8u31FlLmur8P9gSsUmQ2rSlv13mBHwO3r88ic4BxWwcht9sfWCaQJFO-XsgtaiOsjZn9w''"

definition sig_HS256 :: string where
  "sig_HS256 = ''pk_veUWYM0RddOV-fdAb4THoRaTIfp4wuTLJQd4ZEMo''"

definition claims_u1 :: TokenClaims where
  "claims_u1 = NewTokenClaims 0 ''u1'' VerifyEmail"

text \<open>
  The parameters of the parser at these segments. The decoders know the segments above.
  The signature check is the keyed hash where it is needed: it accepts the two signatures
  above, each for its method, its signing string and the key \<open>secret\<close>, and answers that
  the signature is invalid for everything else that is asked here. The claims carry no
  expiry and are valid at any time.
\<close>

definition example_lib :: jwt_lib where
  "example_lib =
     \<lparr>DecodeHeader = (\<lambda>s.
          if s = hdr_HS512 then Some (Some ''HS512'')
          else if s = hdr_HS256 then Some (Some ''HS256'')
          else if s = hdr_RS256 then Some (Some ''RS256'')
          else if s = hdr_none then Some (Some ''none'')
          else None),
      DecodeClaims = (\<lambda>s. if s = seg_claims_u1 then Some claims_u1 else None),
      ClaimsValid = (\<lambda>now c. None),
      Verify = (\<lambda>m signingString signature key.
          if key = ''secret'' \<and>
             (m = SigningMethodHMAC ''HS512'' \<and>
              signingString = hdr_HS512 @ ''.'' @ seg_claims_u1 \<and> signature = sig_HS512 \<or>
              m = SigningMethodHMAC ''HS256'' \<and>
              signingString = hdr_HS256 @ ''.'' @ seg_claims_u1 \<and> signature = sig_HS256)
          then None
          else Some (ExternalError ''signature is invalid''))\<rparr>"

definition example_manager :: authManager where
  "example_manager = \<lparr>opts = \<lparr>PrivateKey = ''secret''\<rparr>\<rparr>"

definition empty_store :: Redis where
  "empty_store = \<lparr>entries = Map.empty, clock = 0\<rparr>"


text \<open>
  Three tokens with the claims of subject \<open>u1\<close>: two signed with the key \<open>secret\<close>, under
  HS512 and under HS256, and one whose header names RS256, with some bytes in the place of
  the signature. And a store in which a given key is present without expiration, written
  there by another client of the store.
\<close>

definition token_HS512 :: string where
  "token_HS512 = hdr_HS512 @ ''.'' @ seg_claims_u1 @ ''.'' @ sig_HS512"

definition token_HS256 :: string where
  "token_HS256 = hdr_HS256 @ ''.'' @ seg_claims_u1 @ ''.'' @ sig_HS256"

definition token_RS256 :: string where
  "token_RS256 = hdr_RS256 @ ''.'' @ seg_claims_u1 @ ''.c2ln''"

definition store_holding :: "string \<Rightarrow> Redis" where
  "store_holding key = \<lparr>entries = [key \<mapsto> (''1'', None)], clock = 0\<rparr>"

section \<open>Properties\<close>

subsection \<open>The store\<close>

lemma live_cong:
  "entries w1 key = entries w2 key \<Longrightarrow> clock w1 = clock w2 \<Longrightarrow> live w1 key = live w2 key"
  by (simp add: live_def split: option.split prod.split)

lemma live_redis_Set:
  "live (fst (redis_Set None w k (ArgString v) e)) key = (if key = k then Some v else live w key)"
proof (cases "key = k")
  case True
  then show ?thesis by (simp add: live_def redis_Set_def)
next
  case False
  then have "live (fst (redis_Set None w k (ArgString v) e)) key = live w key"
    by (intro live_cong) (simp_all add: redis_Set_def)
  with False show ?thesis by simp
qed

text \<open>A \<open>*TokenClaims\<close> is never written: \<open>Set\<close> fails and the store stays as it was.\<close>

lemma redis_Set_TokenClaims:
  "redis_Set fault w key (ArgTokenClaims c) e =
     (w, Some (case fault of None \<Rightarrow> RedisMarshalError | Some err \<Rightarrow> err))"
  by (cases fault) (simp_all add: redis_Set_def)

text \<open>
  So \<open>GenerateToken\<close> returns no key on any input: whatever the generator, the transport,
  the store, the type, the claims and the expiration, the store is unchanged, the key is
  the empty string and the error is not nil.
\<close>

lemma GenerateToken_never_returns_key:
  "fst (GenerateToken g fault w ty c expr) = w \<and>
   fst (snd (GenerateToken g fault w ty c expr)) = [] \<and>
   snd (snd (GenerateToken g fault w ty c expr)) \<noteq> None"
  by (cases "g TokenByteLength"; cases "snd (g TokenByteLength)"; cases fault)
     (simp_all add: GenerateToken_def redis_Set_TokenClaims)

subsection \<open>The parser\<close>

lemma strings_Split_no_sep: "sep \<notin> set s \<Longrightarrow> strings_Split s sep = [s]"
  by (induction s) auto

lemma ParseWithClaims_segments:
  "length (strings_Split tokenString (CHR ''.'')) \<noteq> 3 \<Longrightarrow>
   ParseWithClaims lib now tokenString kf = Inl (ValidationError [ValidationErrorMalformed] None)"
  by (simp add: ParseWithClaims_def ParseUnverified_def)

lemma HMAC_names:
  "GetSigningMethod alg = Some m \<Longrightarrow> is_SigningMethodHMAC m = (alg \<in> set HMAC_algs)"
  by (auto simp: GetSigningMethod_def split: if_splits)

lemma ParseUnverified_Inr:
  "ParseUnverified lib tokenString = Inr (token, parts) \<Longrightarrow>
   parts = strings_Split tokenString (CHR ''.'') \<and> length parts = 3 \<and>
   (\<exists>alg. DecodeHeader lib (parts ! 0) = Some (Some alg) \<and>
          GetSigningMethod alg = Some (Method token))"
  unfolding ParseUnverified_def Let_def
  by (auto split: if_splits option.splits)

lemma ParseUnverified_Verify_update:
  "ParseUnverified (lib\<lparr>Verify := v\<rparr>) tokenString = ParseUnverified lib tokenString"
  by (simp add: ParseUnverified_def Let_def cong: option.case_cong if_cong)

text \<open>
  A token whose method is not of the HMAC family never reaches the signature check: the
  parser stops at the error of the key function, wrapped as unverifiable.
\<close>

lemma ParseWithClaims_not_HMAC:
  "ParseUnverified lib tokenString = Inr (token, parts) \<Longrightarrow>
   \<not> is_SigningMethodHMAC (Method token) \<Longrightarrow>
   ParseWithClaims lib now tokenString (keyFunc t) =
     Inl (ValidationError [ValidationErrorUnverifiable] (Some ErrUnexpectedSigningMethod))"
  by (simp add: ParseWithClaims_def keyFunc_def)

lemma ParseWithClaims_header_not_HMAC:
  assumes hdr: "DecodeHeader lib (strings_Split token (CHR ''.'') ! 0) = Some (Some alg)"
    and alg: "alg \<notin> set HMAC_algs"
  shows "\<exists>e. ParseWithClaims lib now token (keyFunc t) = Inl e"
proof (cases "ParseUnverified lib token")
  case (Inl e)
  then show ?thesis by (simp add: ParseWithClaims_def)
next
  case (Inr r)
  obtain tok parts where r: "r = (tok, parts)" by (cases r)
  from Inr r have pu: "ParseUnverified lib token = Inr (tok, parts)" by simp
  from ParseUnverified_Inr [OF pu] hdr
  have "GetSigningMethod alg = Some (Method tok)" by auto
  from HMAC_names [OF this] alg have "\<not> is_SigningMethodHMAC (Method tok)" by blast
  from ParseWithClaims_not_HMAC [OF pu this] show ?thesis by blast
qed

text \<open>The parser returns no error only together with a token marked valid.\<close>

lemma ParseWithClaims_Valid:
  "ParseWithClaims lib now tokenString kf = Inr jwtToken \<Longrightarrow> Valid jwtToken"
  unfolding ParseWithClaims_def Let_def
  by (auto split: sum.splits prod.splits error.splits if_splits)

subsection \<open>\<open>DecodeToken\<close> in general\<close>

lemma DecodeToken_parse_error:
  "ParseWithClaims lib (clock w) token (keyFunc t) = Inl e \<Longrightarrow>
   fst (DecodeToken lib t fault w token tokenType) = None \<and>
   snd (DecodeToken lib t fault w token tokenType) \<noteq> None"
  by (simp add: DecodeToken_def split: sum.splits)

text \<open>
  A key without a dot has one segment, so the parser refuses it: once the key is found in
  the store, the answer is \<open>ErrInvalidToken\<close>, whatever is stored under the key.
\<close>

lemma DecodeToken_no_dot:
  "CHR ''.'' \<notin> set token \<Longrightarrow>
   DecodeToken lib t fault w token tokenType =
     (None, Some (case redis_Get fault w token of Inl e \<Rightarrow> e | Inr v \<Rightarrow> ErrInvalidToken))"
  by (simp add: DecodeToken_def ParseWithClaims_segments strings_Split_no_sep split: sum.splits)

text \<open>
  \<open>DecodeToken\<close> looks at the store only to see whether the key is present; the value read
  is dropped.
\<close>

lemma DecodeToken_presence:
  "clock w1 = clock w2 \<Longrightarrow> (live w1 key = None) = (live w2 key = None) \<Longrightarrow>
   DecodeToken lib t f w1 key ty = DecodeToken lib t f w2 key ty"
  by (cases f; cases "live w1 key"; cases "live w2 key")
     (simp_all add: DecodeToken_def redis_Get_def)

text \<open>
  The answers of \<open>DecodeToken\<close> when the read is answered: the error of the key function
  is never among them, because every error of the parser is replaced by \<open>ErrInvalidToken\<close>.
\<close>

lemma DecodeToken_never_ErrUnexpectedSigningMethod:
  "snd (DecodeToken lib t None w token tokenType) \<noteq> Some ErrUnexpectedSigningMethod"
  by (simp add: DecodeToken_def redis_Get_def split: sum.split option.split)

lemma DecodeToken_non_HMAC_present:
  assumes "DecodeHeader lib (strings_Split token (CHR ''.'') ! 0) = Some (Some alg)"
    and "alg \<notin> set HMAC_algs"
    and "live w token = Some v"
  shows "DecodeToken lib t None w token tokenType = (None, Some ErrInvalidToken)"
proof -
  from ParseWithClaims_header_not_HMAC [OF assms(1,2)]
  obtain e where "ParseWithClaims lib (clock w) token (keyFunc t) = Inl e" by blast
  with assms(3) show ?thesis by (simp add: DecodeToken_def redis_Get_def)
qed

lemma DecodeToken_rejects_non_HMAC:
  assumes "DecodeHeader lib (strings_Split token (CHR ''.'') ! 0) = Some (Some alg)"
    and "alg \<notin> set HMAC_algs"
  shows "fst (DecodeToken lib t fault w token tokenType) = None \<and>
         snd (DecodeToken lib t fault w token tokenType) \<noteq> None"
proof -
  from ParseWithClaims_header_not_HMAC [OF assms]
  obtain e where "ParseWithClaims lib (clock w) token (keyFunc t) = Inl e" by blast
  then show ?thesis by (rule DecodeToken_parse_error)
qed

text \<open>The type comparison, where it is reached: a token that verifies, under a key present.\<close>

lemma DecodeToken_type_mismatch:
  assumes "ParseWithClaims lib (clock w) token (keyFunc t) = Inr jwtToken"
    and "live w token = Some v"
    and "TokenType (Claims jwtToken) \<noteq> tokenType"
  shows "DecodeToken lib t None w token tokenType = (None, Some ErrInvalidTokenType)"
  using assms ParseWithClaims_Valid [OF assms(1)]
  by (simp add: DecodeToken_def redis_Get_def)

subsection \<open>The concrete setting evaluated\<close>



text \<open>
  The key of the generator, had it been written to the store by someone: it is found, and
  then refused as a token, for it has no dot.
\<close>

lemma decode_random_key_present:
  "DecodeToken lib t None
     (store_holding ''BwgJCgsMDQ4PEBESExQVFhcYGRobHB0eHyAhIiMkJSY='')
     ''BwgJCgsMDQ4PEBESExQVFhcYGRobHB0eHyAhIiMkJSY='' tokenType = (None, Some ErrInvalidToken)"
  by (simp add: DecodeToken_no_dot redis_Get_def store_holding_def live_def)

lemma split_token_HS512:
  "strings_Split token_HS512 (CHR ''.'') = [hdr_HS512, seg_claims_u1, sig_HS512]"
  by (simp add: token_HS512_def hdr_HS512_def seg_claims_u1_def sig_HS512_def)

lemma split_token_HS256:
  "strings_Split token_HS256 (CHR ''.'') = [hdr_HS256, seg_claims_u1, sig_HS256]"
  by (simp add: token_HS256_def hdr_HS256_def seg_claims_u1_def sig_HS256_def)

lemma split_token_RS256:
  "strings_Split token_RS256 (CHR ''.'') = [hdr_RS256, seg_claims_u1, ''c2ln'']"
  by (simp add: token_RS256_def hdr_RS256_def seg_claims_u1_def)

lemma hdr_distinct:
  "hdr_HS256 \<noteq> hdr_HS512" "hdr_RS256 \<noteq> hdr_HS512" "hdr_RS256 \<noteq> hdr_HS256"
  by (simp_all add: hdr_HS512_def hdr_HS256_def hdr_RS256_def)

lemma parse_token_HS512:
  "ParseUnverified example_lib token_HS512 =
     Inr (\<lparr>Raw = token_HS512, Method = SigningMethodHMAC ''HS512'', Claims = claims_u1,
           Signature = [], Valid = False\<rparr>, [hdr_HS512, seg_claims_u1, sig_HS512])"
  by (simp add: ParseUnverified_def split_token_HS512 example_lib_def GetSigningMethod_def
      HMAC_algs_def)

lemma parse_token_HS256:
  "ParseUnverified example_lib token_HS256 =
     Inr (\<lparr>Raw = token_HS256, Method = SigningMethodHMAC ''HS256'', Claims = claims_u1,
           Signature = [], Valid = False\<rparr>, [hdr_HS256, seg_claims_u1, sig_HS256])"
  by (simp add: ParseUnverified_def split_token_HS256 example_lib_def GetSigningMethod_def
      hdr_distinct HMAC_algs_def)

lemma parse_token_RS256:
  "ParseUnverified example_lib token_RS256 =
     Inr (\<lparr>Raw = token_RS256, Method = SigningMethodRSA ''RS256'', Claims = claims_u1,
           Signature = [], Valid = False\<rparr>, [hdr_RS256, seg_claims_u1, ''c2ln''])"
  by (simp add: ParseUnverified_def split_token_RS256 example_lib_def GetSigningMethod_def
      hdr_distinct HMAC_algs_def RSA_algs_def)

lemma get_store_holding: "redis_Get None (store_holding key) key = Inr ''1''"
  by (simp add: redis_Get_def store_holding_def live_def)

lemma verify_token_HS512:
  "ParseWithClaims example_lib now token_HS512 (keyFunc example_manager) =
     Inr \<lparr>Raw = token_HS512, Method = SigningMethodHMAC ''HS512'', Claims = claims_u1,
          Signature = sig_HS512, Valid = True\<rparr>"
  unfolding ParseWithClaims_def parse_token_HS512
  by (simp add: keyFunc_def example_manager_def example_lib_def)

lemma verify_token_HS256:
  "ParseWithClaims example_lib now token_HS256 (keyFunc example_manager) =
     Inr \<lparr>Raw = token_HS256, Method = SigningMethodHMAC ''HS256'', Claims = claims_u1,
          Signature = sig_HS256, Valid = True\<rparr>"
  unfolding ParseWithClaims_def parse_token_HS256
  by (simp add: keyFunc_def example_manager_def example_lib_def)

lemma verify_token_RS256:
  "ParseWithClaims example_lib now token_RS256 (keyFunc example_manager) =
     Inl (ValidationError [ValidationErrorUnverifiable] (Some ErrUnexpectedSigningMethod))"
  unfolding ParseWithClaims_def parse_token_RS256
  by (simp add: keyFunc_def)

lemma TokenType_claims_u1: "TokenType claims_u1 = VerifyEmail"
  by (simp add: claims_u1_def NewTokenClaims_def)

lemma decode_token_HS512:
  "DecodeToken example_lib example_manager None (store_holding token_HS512) token_HS512 tokenType
     = (if tokenType = VerifyEmail then (Some claims_u1, None)
        else (None, Some ErrInvalidTokenType))"
  unfolding DecodeToken_def get_store_holding verify_token_HS512
  by (auto simp add: TokenType_claims_u1)

lemma decode_token_HS256:
  "DecodeToken example_lib example_manager None (store_holding token_HS256) token_HS256
     VerifyEmail = (Some claims_u1, None)"
  unfolding DecodeToken_def get_store_holding verify_token_HS256
  by (simp add: TokenType_claims_u1)

lemma decode_token_RS256:
  "DecodeToken example_lib example_manager None (store_holding token_RS256) token_RS256
     VerifyEmail = (None, Some ErrInvalidToken)"
  unfolding DecodeToken_def get_store_holding verify_token_RS256
  by simp

subsection \<open>The claims\<close>


text \<open>
  C2. The claim: a token signed with another algorithm is refused and the caller is
  handed \<open>ErrUnexpectedSigningMethod\<close>. The code refuses the token but hands back
  \<open>ErrInvalidToken\<close>. Evaluated for a token present in the store whose header names
  RS256: the key function returns \<open>ErrUnexpectedSigningMethod\<close>, the parser wraps it into
  its own error, and \<open>DecodeToken\<close> replaces every error of the parser.
\<close>

theorem DecodeToken_hides_ErrUnexpectedSigningMethod:
  "ParseWithClaims example_lib 0 token_RS256 (keyFunc example_manager) =
     Inl (ValidationError [ValidationErrorUnverifiable] (Some ErrUnexpectedSigningMethod)) \<and>
   DecodeToken example_lib example_manager None (store_holding token_RS256) token_RS256
     VerifyEmail = (None, Some ErrInvalidToken)"
  by (simp add: verify_token_RS256 decode_token_RS256)

text \<open>
  C3, as stated, fails: the key-resolution step asks whether the method is of the type of
  the HMAC family, not whether it is \<open>TokenEncodingAlgorithm\<close>. For a token whose header
  names HS256 it supplies the private key.
\<close>

theorem keyFunc_HS256_counterexample:
  "ParseUnverified example_lib token_HS256 =
     Inr (\<lparr>Raw = token_HS256, Method = SigningMethodHMAC ''HS256'', Claims = claims_u1,
           Signature = [], Valid = False\<rparr>, [hdr_HS256, seg_claims_u1, sig_HS256]) \<and>
   SigningMethodHMAC ''HS256'' \<noteq> TokenEncodingAlgorithm \<and>
   keyFunc example_manager
     \<lparr>Raw = token_HS256, Method = SigningMethodHMAC ''HS256'', Claims = claims_u1,
      Signature = [], Valid = False\<rparr> = Inr ''secret''"
  by (simp add: parse_token_HS256 TokenEncodingAlgorithm_def keyFunc_def example_manager_def)

text \<open>
  C3, amended. Token verification accepts only the algorithms of the HMAC family (HS256,
  HS384, HS512): for every parsed token, the key-resolution step supplies the private key
  when the header names one of them, and otherwise returns
  \<open>ErrUnexpectedSigningMethod\<close> and no key; in that case the parser stops there with the
  same error whatever the signature check would answer, so no cryptographic result of
  such an algorithm is consulted.
\<close>

theorem keyFunc_accepts_HMAC_family:
  assumes "ParseUnverified lib tokenString = Inr (token, parts)"
  shows "\<exists>alg. DecodeHeader lib (parts ! 0) = Some (Some alg) \<and>
           keyFunc t token =
             (if alg \<in> set HMAC_algs then Inr (PrivateKey (opts t))
              else Inl ErrUnexpectedSigningMethod) \<and>
           (alg \<notin> set HMAC_algs \<longrightarrow>
              (\<forall>v. ParseWithClaims (lib\<lparr>Verify := v\<rparr>) now tokenString (keyFunc t) =
                 Inl (ValidationError [ValidationErrorUnverifiable]
                        (Some ErrUnexpectedSigningMethod))))"
proof -
  from ParseUnverified_Inr [OF assms] obtain alg where
    hdr: "DecodeHeader lib (parts ! 0) = Some (Some alg)" and
    gsm: "GetSigningMethod alg = Some (Method token)" by blast
  have fam: "is_SigningMethodHMAC (Method token) = (alg \<in> set HMAC_algs)"
    by (rule HMAC_names [OF gsm])
  have key: "keyFunc t token =
      (if alg \<in> set HMAC_algs then Inr (PrivateKey (opts t))
       else Inl ErrUnexpectedSigningMethod)"
    by (simp add: keyFunc_def fam)
  have rej: "ParseWithClaims (lib\<lparr>Verify := v\<rparr>) now tokenString (keyFunc t) =
      Inl (ValidationError [ValidationErrorUnverifiable] (Some ErrUnexpectedSigningMethod))"
    if "alg \<notin> set HMAC_algs" for v
  proof -
    have "ParseUnverified (lib\<lparr>Verify := v\<rparr>) tokenString = Inr (token, parts)"
      using assms by (simp add: ParseUnverified_Verify_update)
    moreover from that fam have "\<not> is_SigningMethodHMAC (Method token)" by simp
    ultimately show ?thesis by (rule ParseWithClaims_not_HMAC)
  qed
  from hdr key rej show ?thesis by blast
qed

theorem keyFunc_accepts_HMAC_family_witness:
  "ParseUnverified example_lib token_RS256 =
     Inr (\<lparr>Raw = token_RS256, Method = SigningMethodRSA ''RS256'', Claims = claims_u1,
           Signature = [], Valid = False\<rparr>, [hdr_RS256, seg_claims_u1, ''c2ln'']) \<and>
   ''RS256'' \<notin> set HMAC_algs \<and>
   keyFunc example_manager
     \<lparr>Raw = token_RS256, Method = SigningMethodRSA ''RS256'', Claims = claims_u1,
      Signature = [], Valid = False\<rparr> = Inl ErrUnexpectedSigningMethod \<and>
   ParseWithClaims (example_lib\<lparr>Verify := (\<lambda>m signingString signature key. None)\<rparr>) 0
       token_RS256 (keyFunc example_manager) =
     Inl (ValidationError [ValidationErrorUnverifiable] (Some ErrUnexpectedSigningMethod))"
proof -
  have alg: "''RS256'' \<notin> set HMAC_algs"
    by (simp add: HMAC_algs_def)
  have hdr: "DecodeHeader example_lib ([hdr_RS256, seg_claims_u1, ''c2ln''] ! 0)
               = Some (Some ''RS256'')"
    by (simp add: example_lib_def hdr_distinct)
  from keyFunc_accepts_HMAC_family [OF parse_token_RS256, of example_manager 0]
    hdr alg parse_token_RS256
  show ?thesis by auto
qed

text \<open>
  C4, as stated, fails: for a key that is not in the store the caller observes the error
  of the store, \<open>redis.Nil\<close>, as it came; nothing maps it into \<open>ErrInvalidToken\<close>.
\<close>

theorem DecodeToken_absent_key_counterexample:
  "snd (DecodeToken example_lib example_manager None empty_store
          ''BwgJCgsMDQ4PEBESExQVFhcYGRobHB0eHyAhIiMkJSY='' VerifyEmail) = Some RedisNil \<and>
   snd (DecodeToken example_lib example_manager None empty_store
          ''BwgJCgsMDQ4PEBESExQVFhcYGRobHB0eHyAhIiMkJSY='' VerifyEmail)
     \<noteq> Some ErrInvalidToken"
  by (simp add: DecodeToken_def redis_Get_def live_def empty_store_def)

text \<open>
  C4, amended. For every key absent from the store (expired, destroyed or never issued)
  and every type, when the store answers the read, \<open>DecodeToken\<close> returns nil claims and
  the store's own not-found error, \<open>redis.Nil\<close>, unchanged.
\<close>

theorem DecodeToken_absent_key:
  "live w token = None \<Longrightarrow>
   DecodeToken lib t None w token tokenType = (None, Some RedisNil)"
  by (simp add: DecodeToken_def redis_Get_def)

theorem DecodeToken_absent_key_witness:
  "live \<lparr>entries = [''k1'' \<mapsto> (''1'', Some 5)], clock = 9\<rparr> ''k1'' = None \<and>
   DecodeToken example_lib example_manager None
     \<lparr>entries = [''k1'' \<mapsto> (''1'', Some 5)], clock = 9\<rparr> ''k1'' VerifyEmail
     = (None, Some RedisNil)"
proof -
  have absent:
    "live \<lparr>entries = [''k1'' \<mapsto> (''1'', Some 5)], clock = 9\<rparr> ''k1'' = None"
    by (simp add: live_def)
  from absent DecodeToken_absent_key [OF absent] show ?thesis by simp
qed


text \<open>
  C6. After \<open>DestroyToken\<close> has succeeded on a key, \<open>DecodeToken\<close> on that key fails for
  every type and after any lapse of time, long or short: it returns no claims, and the
  error is the store's not-found (or the error of the transport, when the read itself does
  not get through). Whether the key had time left to live plays no role.
\<close>

theorem DecodeToken_after_DestroyToken:
  "snd (DestroyToken fault w key) = None \<Longrightarrow>
   DecodeToken lib t fault' (elapse d (fst (DestroyToken fault w key))) key tokenType =
     (None, Some (case fault' of None \<Rightarrow> RedisNil | Some e \<Rightarrow> e))"
  by (cases fault; cases fault')
     (simp_all add: DestroyToken_def redis_Del_def DecodeToken_def redis_Get_def live_def
        elapse_def)

theorem DecodeToken_after_DestroyToken_witness:
  "snd (DestroyToken None (store_holding token_HS512) token_HS512) = None \<and>
   DecodeToken example_lib example_manager None
     (elapse 1 (fst (DestroyToken None (store_holding token_HS512) token_HS512)))
     token_HS512 VerifyEmail = (None, Some RedisNil) \<and>
   DecodeToken example_lib example_manager None (store_holding token_HS512)
     token_HS512 VerifyEmail = (Some claims_u1, None)"
proof -
  have ok: "snd (DestroyToken None (store_holding token_HS512) token_HS512) = None"
    by (simp add: DestroyToken_def redis_Del_def)
  from ok
    DecodeToken_after_DestroyToken [OF ok, of example_lib example_manager None 1 VerifyEmail]
    decode_token_HS512 [of VerifyEmail]
  show ?thesis by simp
qed

text \<open>
  C7. \<open>DestroyToken\<close> is idempotent. The only error it can return is the transport's: a
  key that is not there is no error. On a key with no entry it returns no error and leaves
  the store as it was, and a second \<open>DestroyToken\<close> on the same key returns no error and
  leaves the store as the first one left it.
\<close>

theorem DestroyToken_idempotent:
  "snd (DestroyToken fault w key) = fault \<and>
   (entries w key = None \<longrightarrow> DestroyToken None w key = (w, None)) \<and>
   DestroyToken None (fst (DestroyToken None w key)) key =
     (fst (DestroyToken None w key), None)"
  by (cases fault) (simp_all add: DestroyToken_def redis_Del_def fun_upd_idem)

theorem DestroyToken_idempotent_witness:
  "entries empty_store ''k1'' = None \<and>
   DestroyToken None empty_store ''k1'' = (empty_store, None) \<and>
   DestroyToken None (fst (DestroyToken None empty_store ''k1'')) ''k1'' = (empty_store, None)"
proof -
  have absent: "entries empty_store ''k1'' = None"
    by (simp add: empty_store_def)
  from absent DestroyToken_idempotent [of None empty_store "''k1''"] show ?thesis by simp
qed

text \<open>
  C8. For every subject string and token type, \<open>NewTokenClaims\<close> returns claims whose
  creation time is the current time of the call and whose subject and token type are the
  arguments as given; nothing else is set and the subject is neither checked nor changed.
\<close>

theorem NewTokenClaims_fields:
  "CreatedAt (NewTokenClaims now uuid tokenType) = now \<and>
   UUID (NewTokenClaims now uuid tokenType) = uuid \<and>
   TokenType (NewTokenClaims now uuid tokenType) = tokenType \<and>
   StandardClaims (NewTokenClaims now uuid tokenType) = zero_StandardClaims"
  by (simp add: NewTokenClaims_def)

text \<open>
  C9. Whenever \<open>DecodeToken\<close> returns a nil error, the claims pointer it returns is not
  nil and the token type of those claims is the type that was asked for.
\<close>

theorem DecodeToken_success_type:
  "snd (DecodeToken lib t fault w token tokenType) = None \<Longrightarrow>
   (\<exists>c. fst (DecodeToken lib t fault w token tokenType) = Some c \<and> TokenType c = tokenType)"
  by (auto simp: DecodeToken_def split: sum.splits if_splits)

theorem DecodeToken_success_type_witness:
  "snd (DecodeToken example_lib example_manager None (store_holding token_HS512) token_HS512
          VerifyEmail) = None \<and>
   (\<exists>c. fst (DecodeToken example_lib example_manager None (store_holding token_HS512)
                token_HS512 VerifyEmail) = Some c \<and> TokenType c = VerifyEmail)"
proof -
  have ok: "snd (DecodeToken example_lib example_manager None (store_holding token_HS512)
                   token_HS512 VerifyEmail) = None"
    by (simp add: decode_token_HS512)
  from ok DecodeToken_success_type [OF ok] show ?thesis by simp
qed

text \<open>
  C10. When the random generator fails, \<open>GenerateToken\<close> writes nothing: the store is the
  one it was given, the returned key is the empty string and the error is the generator's
  own, whatever the other arguments and whatever the transport would have done.
\<close>

theorem GenerateToken_generator_failure:
  "generateRandomString TokenByteLength = (s, Some err) \<Longrightarrow>
   GenerateToken generateRandomString fault w tokenType tokenClaims expr = (w, [], Some err)"
  by (simp add: GenerateToken_def)

theorem GenerateToken_generator_failure_witness:
  "(\<lambda>n::int. ([]::string, Some (ExternalError ''EOF''))) TokenByteLength
     = ([], Some (ExternalError ''EOF'')) \<and>
   GenerateToken (\<lambda>n. ([], Some (ExternalError ''EOF''))) None
     \<lparr>entries = Map.empty, clock = 0\<rparr> VerifyEmail
     (Some (NewTokenClaims 0 ''u1'' VerifyEmail)) 5
     = (\<lparr>entries = Map.empty, clock = 0\<rparr>, [], Some (ExternalError ''EOF''))"
  using GenerateToken_generator_failure
    [of "\<lambda>n. ([], Some (ExternalError ''EOF''))" "[]" "ExternalError ''EOF''" None
        "\<lparr>entries = Map.empty, clock = 0\<rparr>" VerifyEmail
        "Some (NewTokenClaims 0 ''u1'' VerifyEmail)" 5]
  by simp

end
